theory Spec2Isabelle
  imports Complex_Main
begin

section \<open>Python values used by the script\<close>

text \<open>
  The script \<^verbatim>\<open>blender_storyline_icons.py\<close> only passes numeric literals and tuples of
  numeric literals to the host.  A Python number is modelled by the real number its
  literal denotes (the script does no floating-point arithmetic on them; its one
  computed number is \<^verbatim>\<open>math.radians(180)\<close>), a tuple of numbers by a list.
\<close>

type_synonym vec = "real list"

datatype pyval = Num real | Tuple vec

definition radians :: "real \<Rightarrow> real" where
  "radians x = x * pi / 180"

text \<open>Decimal rendering of an integer, as an f-string does for \<^verbatim>\<open>{size}\<close>.\<close>

fun digits :: "nat \<Rightarrow> string" where
  "digits n =
     (if n < 10 then [''0123456789'' ! n]
      else digits (n div 10) @ [''0123456789'' ! (n mod 10)])"

declare digits.simps [simp del]

definition str :: "int \<Rightarrow> string" where
  "str i = (if i < 0 then CHR ''-'' # digits (nat (- i)) else digits (nat i))"

text \<open>The two emoji of the script's messages, as their UTF-8 bytes.\<close>

definition check_mark :: string where
  "check_mark = [CHR 0xE2, CHR 0x9C, CHR 0x85]"



section \<open>The host's scene: data blocks\<close>

text \<open>
  The host (the \<^verbatim>\<open>bpy\<close> module) is not part of the repository.  Its state is modelled
  by the attributes the script reads or writes, under the attribute names of the source.
  A reference to an object is its index in \<open>objects\<close> (a removed object leaves \<open>None\<close>
  at its index, so a reference never comes to denote another object); a reference to a
  material is its index in \<open>data_materials\<close>, which the script never shrinks, and
  there is one reference to the world of the scene.  A Python variable that may hold
  \<^verbatim>\<open>None\<close> is an \<open>option\<close>.
  An attribute the host initialises to a default of its own, and that the script may
  overwrite, is \<open>None\<close> until the script assigns it.
  Three things the host does are left out, since the script never relies on them: a name
  stays as it was assigned (the host renames a data block whose name is taken), every
  object of the scene can be selected, and the mesh or light of an object belongs to
  that object alone.
\<close>

datatype shape = Cylinder real real | Cube real | IcoSphere real | Cone real real

datatype shader_ref = MaterialRef nat | WorldRef

record mesh =
  shape :: shape
  materials :: "shader_ref option list"
  smooth :: bool

record light =
  light_type :: string
  energy :: "real option"
  color :: "vec option"

datatype obdata = Mesh mesh | Light light | Camera

record modifier =
  mod_name :: string
  mod_type :: string
  levels :: "int option"

record object =
  name :: string
  data :: obdata
  location :: vec
  rotation_euler :: vec
  scale :: vec
  selected :: bool
  modifiers :: "modifier list"

record node =
  node_type :: string
  inputs :: "(string \<times> pyval option) list"
  outputs :: "string list"

record link =
  from_node :: nat
  from_socket :: string
  to_node :: nat
  to_socket :: string

record shader_tree =
  nodes :: "node list"
  links :: "link list"

text \<open>
  A material and the world are data blocks with the same three attributes; both are
  stored as a \<open>material\<close>.
\<close>

record material =
  mat_name :: string
  use_nodes :: bool
  node_tree :: "shader_tree option"

record render_settings =
  resolution_x :: int
  resolution_y :: int
  film_transparent :: bool
  filepath :: string

text \<open>A still image written by a render: where, how large, and of what.\<close>

record image =
  img_path :: string
  img_width :: int
  img_height :: int
  img_transparent :: bool
  img_camera :: "nat option"
  img_objects :: "string list"

text \<open>
  What the script cannot know about the host: whether the host accepts an operator
  call, the name it gives a new object or modifier, the sockets of a node type
  (\<open>None\<close>: no such node type), the node tree it installs when nodes are first enabled,
  and whether a path can be written.
\<close>

record host =
  op_ok :: "string \<Rightarrow> bool"
  object_name :: "obdata \<Rightarrow> string"
  modifier_name :: "string \<Rightarrow> string"
  node_sockets :: "string \<Rightarrow> (string list \<times> string list) option"
  new_tree :: shader_tree
  can_write :: "string \<Rightarrow> bool"

record bpy =
  host :: host
  objects :: "object option list"
  data_materials :: "material list"
  active_object :: "nat option"
  mode :: string
  world :: "material option"
  camera :: "nat option"
  render :: render_settings
  files :: "image list"
  stdout :: "string list"

fun live :: "'a option list \<Rightarrow> 'a list" where
  "live [] = []"
| "live (None # xs) = live xs"
| "live (Some x # xs) = x # live xs"


section \<open>Exceptions and sequencing\<close>

text \<open>
  A call returns a value or raises; either way it returns the state it leaves.  An
  exception records where it was raised and the state of the host at that moment.
  \<open>seq\<close> is Python's statement sequencing: the second statement runs only if the first
  returns.  The script has no \<^verbatim>\<open>try\<close>, so the model has no handler.
\<close>

datatype exn_kind = RuntimeError | AttributeError | KeyError | IndexError | ReferenceError

datatype exn = Exn exn_kind string bpy


datatype 'a outcome = Ok 'a | Raise exn

type_synonym 'a py = "bpy \<Rightarrow> 'a outcome \<times> bpy"

definition return :: "'a \<Rightarrow> 'a py" where
  "return x s = (Ok x, s)"

definition raise :: "exn_kind \<Rightarrow> string \<Rightarrow> 'a py" where
  "raise k what s = (Raise (Exn k what s), s)"

definition seq :: "'a py \<Rightarrow> ('a \<Rightarrow> 'b py) \<Rightarrow> 'b py" where
  "seq m f s = (case m s of (Ok x, s') \<Rightarrow> f x s' | (Raise e, s') \<Rightarrow> (Raise e, s'))"

definition assign :: "(bpy \<Rightarrow> bpy) \<Rightarrow> unit py" where
  "assign f s = (Ok (), f s)"



definition getitem :: "(string \<times> 'a) list \<Rightarrow> string \<Rightarrow> 'a py" where
  "getitem d k s = (case map_of d k of None \<Rightarrow> raise KeyError k s | Some v \<Rightarrow> (Ok v, s))"

definition print :: "string \<Rightarrow> unit py" where
  "print line = assign (\<lambda>s. s\<lparr>stdout := stdout s @ [line]\<rparr>)"


section \<open>The host calls the script makes\<close>

subsection \<open>Operators (\<^verbatim>\<open>bpy.ops\<close>)\<close>

text \<open>
  An operator the host refuses raises \<^verbatim>\<open>RuntimeError\<close> and changes nothing.  Which
  operators the host refuses is the host's business (\<open>op_ok\<close>); the model adds no
  condition of its own on the mode or the selection.
\<close>

definition bpy_ops :: "string \<Rightarrow> (bpy \<Rightarrow> bpy) \<Rightarrow> unit py" where
  "bpy_ops opname effect s =
     (if op_ok (host s) opname then (Ok (), effect s) else raise RuntimeError opname s)"

datatype action = SELECT | DESELECT | INVERT | TOGGLE

definition select_as :: "action \<Rightarrow> object list \<Rightarrow> object \<Rightarrow> object" where
  "select_as a obs ob =
     (case a of
        SELECT \<Rightarrow> ob\<lparr>selected := True\<rparr>
      | DESELECT \<Rightarrow> ob\<lparr>selected := False\<rparr>
      | INVERT \<Rightarrow> ob\<lparr>selected := \<not> selected ob\<rparr>
      | TOGGLE \<Rightarrow> ob\<lparr>selected := \<not> list_ex selected obs\<rparr>)"

definition ops_object_select_all :: "action \<Rightarrow> unit py" where
  "ops_object_select_all a =
     bpy_ops ''object.select_all''
       (\<lambda>s. s\<lparr>objects := map (map_option (select_as a (live (objects s)))) (objects s)\<rparr>)"

text \<open>A reference to a removed object is gone from the context and the scene as well.\<close>

definition still_there :: "object option list \<Rightarrow> nat option \<Rightarrow> nat option" where
  "still_there obs r =
     (case r of
        None \<Rightarrow> None
      | Some i \<Rightarrow> if i < length obs \<and> obs ! i \<noteq> None then Some i else None)"

definition forget_removed :: "bpy \<Rightarrow> bpy" where
  "forget_removed s =
     s\<lparr>active_object := still_there (objects s) (active_object s),
       camera := still_there (objects s) (camera s)\<rparr>"

definition delete_selected :: "object option \<Rightarrow> object option" where
  "delete_selected x =
     (case x of None \<Rightarrow> None | Some ob \<Rightarrow> if selected ob then None else Some ob)"

definition ops_object_delete :: "bool \<Rightarrow> unit py" where
  "ops_object_delete use_global =
     bpy_ops ''object.delete''
       (\<lambda>s. forget_removed (s\<lparr>objects := map delete_selected (objects s)\<rparr>))"

text \<open>
  Every operator that adds an object deselects the others, selects the new object and
  makes it the active one.
\<close>

definition deselect_all :: "object option list \<Rightarrow> object option list" where
  "deselect_all obs = map (map_option (\<lambda>ob. ob\<lparr>selected := False\<rparr>)) obs"

definition add_object :: "obdata \<Rightarrow> vec \<Rightarrow> bpy \<Rightarrow> bpy" where
  "add_object d loc s =
     s\<lparr>objects :=
         deselect_all (objects s) @
         [Some \<lparr>name = object_name (host s) d, data = d, location = loc,
                rotation_euler = [0, 0, 0], scale = [1, 1, 1], selected = True,
                modifiers = []\<rparr>],
       active_object := Some (length (objects s))\<rparr>"

definition new_mesh :: "shape \<Rightarrow> obdata" where
  "new_mesh sh = Mesh \<lparr>shape = sh, materials = [], smooth = False\<rparr>"

definition ops_mesh_primitive_cylinder_add :: "real \<Rightarrow> real \<Rightarrow> vec \<Rightarrow> unit py" where
  "ops_mesh_primitive_cylinder_add radius depth loc =
     bpy_ops ''mesh.primitive_cylinder_add'' (add_object (new_mesh (Cylinder radius depth)) loc)"

definition ops_mesh_primitive_cube_add :: "real \<Rightarrow> vec \<Rightarrow> unit py" where
  "ops_mesh_primitive_cube_add edge loc =
     bpy_ops ''mesh.primitive_cube_add'' (add_object (new_mesh (Cube edge)) loc)"

definition ops_mesh_primitive_ico_sphere_add :: "real \<Rightarrow> vec \<Rightarrow> unit py" where
  "ops_mesh_primitive_ico_sphere_add radius loc =
     bpy_ops ''mesh.primitive_ico_sphere_add'' (add_object (new_mesh (IcoSphere radius)) loc)"

definition ops_mesh_primitive_cone_add :: "real \<Rightarrow> real \<Rightarrow> vec \<Rightarrow> unit py" where
  "ops_mesh_primitive_cone_add radius1 depth loc =
     bpy_ops ''mesh.primitive_cone_add'' (add_object (new_mesh (Cone radius1 depth)) loc)"

definition new_light :: "string \<Rightarrow> obdata" where
  "new_light ty = Light \<lparr>light_type = ty, energy = None, color = None\<rparr>"

definition ops_object_light_add :: "string \<Rightarrow> vec \<Rightarrow> unit py" where
  "ops_object_light_add ty loc = bpy_ops ''object.light_add'' (add_object (new_light ty) loc)"

definition ops_object_camera_add :: "vec \<Rightarrow> unit py" where
  "ops_object_camera_add loc = bpy_ops ''object.camera_add'' (add_object Camera loc)"

definition smooth_selected :: "object \<Rightarrow> object" where
  "smooth_selected ob =
     (case data ob of
        Mesh m \<Rightarrow> if selected ob then ob\<lparr>data := Mesh (m\<lparr>smooth := True\<rparr>)\<rparr> else ob
      | _ \<Rightarrow> ob)"

definition ops_object_shade_smooth :: "unit py" where
  "ops_object_shade_smooth =
     bpy_ops ''object.shade_smooth''
       (\<lambda>s. s\<lparr>objects := map (map_option smooth_selected) (objects s)\<rparr>)"

text \<open>\<^verbatim>\<open>modifier_add\<close> works on the active object and is refused when there is none.\<close>

definition ops_object_modifier_add :: "string \<Rightarrow> unit py" where
  "ops_object_modifier_add ty s =
     (case still_there (objects s) (active_object s) of
        None \<Rightarrow> raise RuntimeError ''object.modifier_add'' s
      | Some i \<Rightarrow>
          bpy_ops ''object.modifier_add''
            (\<lambda>s. s\<lparr>objects := (objects s)
                 [i := map_option
                    (\<lambda>ob. ob\<lparr>modifiers := modifiers ob @
                       [\<lparr>mod_name = modifier_name (host s) ty, mod_type = ty,
                         levels = None\<rparr>]\<rparr>)
                    (objects s ! i)]\<rparr>) s)"

definition ops_object_mode_set :: "string \<Rightarrow> unit py" where
  "ops_object_mode_set m = bpy_ops ''object.mode_set'' (\<lambda>s. s\<lparr>mode := m\<rparr>)"

text \<open>
  The two edit-mode operators change the selection of vertices, which the model does
  not hold.
\<close>

definition ops_mesh_select_all :: "action \<Rightarrow> unit py" where
  "ops_mesh_select_all a = bpy_ops ''mesh.select_all'' (\<lambda>s. s)"

definition ops_mesh_select_mode :: "string \<Rightarrow> unit py" where
  "ops_mesh_select_mode ty = bpy_ops ''mesh.select_mode'' (\<lambda>s. s)"

definition rendered_image :: "bpy \<Rightarrow> image" where
  "rendered_image s =
     \<lparr>img_path = filepath (render s), img_width = resolution_x (render s),
      img_height = resolution_y (render s), img_transparent = film_transparent (render s),
      img_camera = camera s, img_objects = map name (live (objects s))\<rparr>"

definition ops_render_render :: "bool \<Rightarrow> unit py" where
  "ops_render_render write_still s =
     (if write_still \<and> \<not> can_write (host s) (filepath (render s))
      then raise RuntimeError ''render.render'' s
      else bpy_ops ''render.render''
             (\<lambda>s. if write_still then s\<lparr>files := files s @ [rendered_image s]\<rparr> else s) s)"

subsection \<open>Attributes of objects\<close>

text \<open>
  An attribute assignment through a reference: \<^verbatim>\<open>None\<close> has no attributes
  (\<^verbatim>\<open>AttributeError\<close>), a removed object cannot be used any more
  (\<^verbatim>\<open>ReferenceError\<close>), and the assignment itself may raise.
\<close>

definition update_object ::
    "nat option \<Rightarrow> string \<Rightarrow> (object \<Rightarrow> exn_kind + object) \<Rightarrow> unit py" where
  "update_object r attr f s =
     (case r of
        None \<Rightarrow> raise AttributeError attr s
      | Some i \<Rightarrow>
          (if i < length (objects s) then
             (case objects s ! i of
                None \<Rightarrow> raise ReferenceError attr s
              | Some ob \<Rightarrow>
                  (case f ob of
                     Inl k \<Rightarrow> raise k attr s
                   | Inr ob' \<Rightarrow> (Ok (), s\<lparr>objects := (objects s)[i := Some ob']\<rparr>)))
           else raise ReferenceError attr s))"

definition context_active_object :: "nat option py" where
  "context_active_object s = (Ok (active_object s), s)"

definition set_name :: "nat option \<Rightarrow> string \<Rightarrow> unit py" where
  "set_name r n = update_object r ''name'' (\<lambda>ob. Inr (ob\<lparr>name := n\<rparr>))"

definition set_location :: "nat option \<Rightarrow> vec \<Rightarrow> unit py" where
  "set_location r v = update_object r ''location'' (\<lambda>ob. Inr (ob\<lparr>location := v\<rparr>))"

definition set_scale :: "nat option \<Rightarrow> vec \<Rightarrow> unit py" where
  "set_scale r v = update_object r ''scale'' (\<lambda>ob. Inr (ob\<lparr>scale := v\<rparr>))"

definition set_rotation_euler :: "nat option \<Rightarrow> vec \<Rightarrow> unit py" where
  "set_rotation_euler r v =
     update_object r ''rotation_euler'' (\<lambda>ob. Inr (ob\<lparr>rotation_euler := v\<rparr>))"

definition set_rotation_euler_item :: "nat option \<Rightarrow> nat \<Rightarrow> real \<Rightarrow> unit py" where
  "set_rotation_euler_item r i x =
     update_object r ''rotation_euler''
       (\<lambda>ob. if i < length (rotation_euler ob)
             then Inr (ob\<lparr>rotation_euler := (rotation_euler ob)[i := x]\<rparr>)
             else Inl IndexError)"

definition data_materials_append :: "nat option \<Rightarrow> shader_ref option \<Rightarrow> unit py" where
  "data_materials_append r mat =
     update_object r ''data.materials''
       (\<lambda>ob. case data ob of
               Mesh m \<Rightarrow> Inr (ob\<lparr>data := Mesh (m\<lparr>materials := materials m @ [mat]\<rparr>)\<rparr>)
             | _ \<Rightarrow> Inl AttributeError)"

definition set_data_energy :: "nat option \<Rightarrow> real \<Rightarrow> unit py" where
  "set_data_energy r x =
     update_object r ''data.energy''
       (\<lambda>ob. case data ob of
               Light l \<Rightarrow> Inr (ob\<lparr>data := Light (l\<lparr>energy := Some x\<rparr>)\<rparr>)
             | _ \<Rightarrow> Inl AttributeError)"

definition set_data_color :: "nat option \<Rightarrow> vec \<Rightarrow> unit py" where
  "set_data_color r c =
     update_object r ''data.color''
       (\<lambda>ob. case data ob of
               Light l \<Rightarrow> Inr (ob\<lparr>data := Light (l\<lparr>color := Some c\<rparr>)\<rparr>)
             | _ \<Rightarrow> Inl AttributeError)"

fun set_levels :: "string \<Rightarrow> int \<Rightarrow> modifier list \<Rightarrow> modifier list option" where
  "set_levels key v [] = None"
| "set_levels key v (m # ms) =
     (if mod_name m = key then Some (m\<lparr>levels := Some v\<rparr> # ms)
      else map_option ((#) m) (set_levels key v ms))"

definition set_modifier_levels :: "nat option \<Rightarrow> string \<Rightarrow> int \<Rightarrow> unit py" where
  "set_modifier_levels r key v =
     update_object r ''modifiers''
       (\<lambda>ob. case set_levels key v (modifiers ob) of
               None \<Rightarrow> Inl KeyError
             | Some ms \<Rightarrow> Inr (ob\<lparr>modifiers := ms\<rparr>))"

definition set_view_layer_objects_active :: "nat option \<Rightarrow> unit py" where
  "set_view_layer_objects_active r = assign (\<lambda>s. s\<lparr>active_object := r\<rparr>)"

definition set_scene_camera :: "nat option \<Rightarrow> unit py" where
  "set_scene_camera r = assign (\<lambda>s. s\<lparr>camera := r\<rparr>)"

subsection \<open>The collection \<^verbatim>\<open>bpy.data.objects\<close>\<close>

fun index_of_name :: "string \<Rightarrow> object option list \<Rightarrow> nat option" where
  "index_of_name n [] = None"
| "index_of_name n (None # xs) = map_option Suc (index_of_name n xs)"
| "index_of_name n (Some ob # xs) =
     (if name ob = n then Some 0 else map_option Suc (index_of_name n xs))"

definition data_objects_contains :: "string \<Rightarrow> bool py" where
  "data_objects_contains n s = (Ok (index_of_name n (objects s) \<noteq> None), s)"

definition data_objects_getitem :: "string \<Rightarrow> nat option py" where
  "data_objects_getitem n s =
     (case index_of_name n (objects s) of
        None \<Rightarrow> raise KeyError n s
      | Some i \<Rightarrow> (Ok (Some i), s))"

definition data_objects_remove :: "nat option \<Rightarrow> unit py" where
  "data_objects_remove r s =
     (case still_there (objects s) r of
        None \<Rightarrow> raise ReferenceError ''objects.remove'' s
      | Some i \<Rightarrow> (Ok (), forget_removed (s\<lparr>objects := (objects s)[i := None]\<rparr>)))"

subsection \<open>Materials, the world and their node trees\<close>

definition data_materials_new :: "string \<Rightarrow> shader_ref option py" where
  "data_materials_new n s =
     (Ok (Some (MaterialRef (length (data_materials s)))),
      s\<lparr>data_materials := data_materials s @
           [\<lparr>mat_name = n, use_nodes = False, node_tree = None\<rparr>]\<rparr>)"

definition context_scene_world :: "shader_ref option py" where
  "context_scene_world s = (Ok (if world s = None then None else Some WorldRef), s)"

definition shader_at :: "bpy \<Rightarrow> shader_ref \<Rightarrow> material option" where
  "shader_at s r =
     (case r of
        WorldRef \<Rightarrow> world s
      | MaterialRef i \<Rightarrow>
          if i < length (data_materials s) then Some (data_materials s ! i) else None)"

definition put_shader :: "shader_ref \<Rightarrow> material \<Rightarrow> bpy \<Rightarrow> bpy" where
  "put_shader r m s =
     (case r of
        WorldRef \<Rightarrow> s\<lparr>world := Some m\<rparr>
      | MaterialRef i \<Rightarrow> s\<lparr>data_materials := (data_materials s)[i := m]\<rparr>)"

definition update_shader ::
    "shader_ref option \<Rightarrow> string \<Rightarrow> (material \<Rightarrow> exn_kind + 'a \<times> material) \<Rightarrow> 'a py" where
  "update_shader r attr f s =
     (case r of
        None \<Rightarrow> raise AttributeError attr s
      | Some r' \<Rightarrow>
          (case shader_at s r' of
             None \<Rightarrow> raise ReferenceError attr s
           | Some m \<Rightarrow>
               (case f m of
                  Inl k \<Rightarrow> raise k attr s
                | Inr (x, m') \<Rightarrow> (Ok x, put_shader r' m' s))))"

text \<open>Enabling nodes on a data block that has no tree yet makes the host install one.\<close>

definition set_use_nodes :: "shader_ref option \<Rightarrow> bool \<Rightarrow> unit py" where
  "set_use_nodes r b s =
     update_shader r ''use_nodes''
       (\<lambda>m. Inr ((), m\<lparr>use_nodes := b,
                        node_tree :=
                          (if b then Some (case node_tree m of
                                             None \<Rightarrow> new_tree (host s) | Some t \<Rightarrow> t)
                           else node_tree m)\<rparr>)) s"

definition update_tree ::
    "shader_ref option \<Rightarrow> string \<Rightarrow> (shader_tree \<Rightarrow> exn_kind + 'a \<times> shader_tree) \<Rightarrow> 'a py"
    where
  "update_tree r attr f =
     update_shader r attr
       (\<lambda>m. case node_tree m of
              None \<Rightarrow> Inl AttributeError
            | Some t \<Rightarrow>
                (case f t of
                   Inl k \<Rightarrow> Inl k
                 | Inr (x, t') \<Rightarrow> Inr (x, m\<lparr>node_tree := Some t'\<rparr>)))"

text \<open>Removing every node removes every link with them.\<close>

definition node_tree_nodes_clear :: "shader_ref option \<Rightarrow> unit py" where
  "node_tree_nodes_clear r =
     update_tree r ''node_tree.nodes.clear'' (\<lambda>t. Inr ((), \<lparr>nodes = [], links = []\<rparr>))"

text \<open>A node is referred to by the data block that owns its tree and its index there.\<close>

type_synonym node_ref = "shader_ref option \<times> nat"

definition new_node :: "string \<Rightarrow> string list \<times> string list \<Rightarrow> node" where
  "new_node ty socks =
     \<lparr>node_type = ty, inputs = map (\<lambda>k. (k, None)) (fst socks), outputs = snd socks\<rparr>"

definition node_tree_nodes_new :: "shader_ref option \<Rightarrow> string \<Rightarrow> node_ref py" where
  "node_tree_nodes_new r ty s =
     update_tree r ''node_tree.nodes.new''
       (\<lambda>t. case node_sockets (host s) ty of
              None \<Rightarrow> Inl RuntimeError
            | Some socks \<Rightarrow>
                Inr ((r, length (nodes t)), t\<lparr>nodes := nodes t @ [new_node ty socks]\<rparr>)) s"

type_synonym socket_ref = "node_ref \<times> string"

definition node_inputs :: "node_ref \<Rightarrow> string \<Rightarrow> socket_ref py" where
  "node_inputs nd key =
     update_tree (fst nd) ''inputs''
       (\<lambda>t. if snd nd < length (nodes t)
            then (if key \<in> set (map fst (inputs (nodes t ! snd nd)))
                  then Inr ((nd, key), t) else Inl KeyError)
            else Inl ReferenceError)"

definition node_outputs :: "node_ref \<Rightarrow> string \<Rightarrow> socket_ref py" where
  "node_outputs nd key =
     update_tree (fst nd) ''outputs''
       (\<lambda>t. if snd nd < length (nodes t)
            then (if key \<in> set (outputs (nodes t ! snd nd))
                  then Inr ((nd, key), t) else Inl KeyError)
            else Inl ReferenceError)"

fun set_key :: "string \<Rightarrow> 'v \<Rightarrow> (string \<times> 'v) list \<Rightarrow> (string \<times> 'v) list" where
  "set_key key v [] = []"
| "set_key key v ((k, w) # kvs) =
     (if k = key then (k, v) # kvs else (k, w) # set_key key v kvs)"

definition set_default_value :: "socket_ref \<Rightarrow> pyval \<Rightarrow> unit py" where
  "set_default_value sock v =
     update_tree (fst (fst sock)) ''default_value''
       (\<lambda>t. let n = snd (fst sock) in
            if n < length (nodes t)
            then Inr ((), t\<lparr>nodes := (nodes t)
                     [n := (nodes t ! n)
                        \<lparr>inputs := set_key (snd sock) (Some v) (inputs (nodes t ! n))\<rparr>]\<rparr>)
            else Inl ReferenceError)"

definition node_tree_links_new ::
    "shader_ref option \<Rightarrow> socket_ref \<Rightarrow> socket_ref \<Rightarrow> unit py" where
  "node_tree_links_new r src dst =
     update_tree r ''node_tree.links.new''
       (\<lambda>t. Inr ((), t\<lparr>links := links t @
                [\<lparr>from_node = snd (fst src), from_socket = snd src,
                  to_node = snd (fst dst), to_socket = snd dst\<rparr>]\<rparr>))"

subsection \<open>Render settings\<close>

definition set_render_resolution_x :: "int \<Rightarrow> unit py" where
  "set_render_resolution_x v = assign (\<lambda>s. s\<lparr>render := (render s)\<lparr>resolution_x := v\<rparr>\<rparr>)"

definition set_render_resolution_y :: "int \<Rightarrow> unit py" where
  "set_render_resolution_y v = assign (\<lambda>s. s\<lparr>render := (render s)\<lparr>resolution_y := v\<rparr>\<rparr>)"

definition set_render_film_transparent :: "bool \<Rightarrow> unit py" where
  "set_render_film_transparent v =
     assign (\<lambda>s. s\<lparr>render := (render s)\<lparr>film_transparent := v\<rparr>\<rparr>)"

definition set_render_filepath :: "string \<Rightarrow> unit py" where
  "set_render_filepath v = assign (\<lambda>s. s\<lparr>render := (render s)\<lparr>filepath := v\<rparr>\<rparr>)"


section \<open>The script\<close>

definition COLORS :: "(string \<times> vec) list" where
  "COLORS =
     [(''soft_plum'', [0.533, 0.329, 0.816, 1.0]),
      (''warm_ochre'', [0.894, 0.702, 0.388, 1.0]),
      (''gentle_sage'', [0.659, 0.753, 0.565, 1.0]),
      (''ink_black'', [0.106, 0.110, 0.118, 1.0]),
      (''soft_white'', [0.98, 0.98, 0.98, 1.0])]"

text \<open>A parameter with a default value: \<open>None\<close> when the caller leaves it out.\<close>

definition default_arg :: "'a \<Rightarrow> 'a option \<Rightarrow> 'a" where
  "default_arg d a = (case a of None \<Rightarrow> d | Some v \<Rightarrow> v)"



definition setup_lighting :: "unit py" where
  "setup_lighting =
     seq context_scene_world (\<lambda>w.
     seq (set_use_nodes w True) (\<lambda>_.
     seq (node_tree_nodes_clear w) (\<lambda>_.
     seq (node_tree_nodes_new w ''ShaderNodeTexEnvironment'') (\<lambda>env_node.
     seq (node_tree_nodes_new w ''ShaderNodeBackground'') (\<lambda>background.
     seq (node_tree_nodes_new w ''ShaderNodeOutputWorld'') (\<lambda>output.
     seq (node_inputs background ''Color'') (\<lambda>i.
     seq (set_default_value i (Tuple [0.1, 0.08, 0.12, 1.0])) (\<lambda>_.
     seq (node_inputs background ''Strength'') (\<lambda>i.
     seq (set_default_value i (Num 0.3)) (\<lambda>_.
     seq (node_outputs background ''Background'') (\<lambda>src.
     seq (node_inputs output ''Surface'') (\<lambda>dst.
     seq (node_tree_links_new w src dst) (\<lambda>_.
     seq (ops_object_light_add ''SUN'' [5, 5, 10]) (\<lambda>_.
     seq context_active_object (\<lambda>key_light.
     seq (set_data_energy key_light 3) (\<lambda>_.
     seq (set_data_color key_light [1.0, 0.95, 0.9]) (\<lambda>_.
     seq (ops_object_light_add ''AREA'' [-3, 2, 5]) (\<lambda>_.
     seq context_active_object (\<lambda>fill_light.
     seq (set_data_energy fill_light 1) (\<lambda>_.
     seq (getitem COLORS ''warm_ochre'') (\<lambda>c.
     set_data_color fill_light (take 3 c))))))))))))))))))))))"






definition icons_dir :: string where
  "icons_dir = ''/Users/jamesfarmer/Application Prototype/Storyline/assets/icons/''"

definition render_icon :: "string \<Rightarrow> int option \<Rightarrow> unit py" where
  "render_icon nm size_arg =
     (let sz = default_arg 1024 size_arg in
      seq (set_render_resolution_x sz) (\<lambda>_.
      seq (set_render_resolution_y sz) (\<lambda>_.
      seq (set_render_film_transparent True) (\<lambda>_.
      seq (set_render_filepath (icons_dir @ nm @ ''_'' @ str sz @ ''.png'')) (\<lambda>_.
      seq (ops_render_render True) (\<lambda>_.
      print (check_mark @ '' Rendered '' @ nm @ '' icon at '' @ str sz @ ''px'')))))))"



section \<open>A host and a scene to run the script on\<close>

text \<open>
  A host that accepts every call, with the names and sockets the script expects, and
  the scene a freshly started host shows: a cube, a light and a camera named
  \<^verbatim>\<open>Camera\<close>.
\<close>

definition demo_host :: host where
  "demo_host =
     \<lparr>op_ok = (\<lambda>_. True),
      object_name = (\<lambda>d. case d of
          Mesh m \<Rightarrow> (case shape m of
              Cylinder _ _ \<Rightarrow> ''Cylinder'' | Cube _ \<Rightarrow> ''Cube''
            | IcoSphere _ \<Rightarrow> ''Icosphere'' | Cone _ _ \<Rightarrow> ''Cone'')
        | Light l \<Rightarrow> (if light_type l = ''SUN'' then ''Sun'' else ''Area'')
        | Camera \<Rightarrow> ''Camera''),
      modifier_name = (\<lambda>ty. if ty = ''SUBSURF'' then ''Subdivision Surface'' else ty),
      node_sockets = map_of
        [(''ShaderNodeBsdfPrincipled'',
            ([''Base Color'', ''Metallic'', ''Roughness'', ''Emission Strength''], [''BSDF''])),
         (''ShaderNodeOutputMaterial'', ([''Surface'', ''Volume'', ''Displacement''], [])),
         (''ShaderNodeTexEnvironment'', ([''Vector''], [''Color''])),
         (''ShaderNodeBackground'', ([''Color'', ''Strength''], [''Background''])),
         (''ShaderNodeOutputWorld'', ([''Surface'', ''Volume''], []))],
      new_tree = \<lparr>nodes = [], links = []\<rparr>,
      can_write = (\<lambda>_. True)\<rparr>"

definition startup_scene :: bpy where
  "startup_scene =
     \<lparr>host = demo_host,
      objects =
        [Some \<lparr>name = ''Cube'', data = new_mesh (Cube 2), location = [0, 0, 0],
               rotation_euler = [0, 0, 0], scale = [1, 1, 1], selected = True,
               modifiers = []\<rparr>,
         Some \<lparr>name = ''Light'',
               data = Light \<lparr>light_type = ''POINT'', energy = None, color = None\<rparr>,
               location = [4, 1, 6], rotation_euler = [0, 0, 0], scale = [1, 1, 1],
               selected = False, modifiers = []\<rparr>,
         Some \<lparr>name = ''Camera'', data = Camera, location = [7, -7, 5],
               rotation_euler = [1.1, 0, 0.8], scale = [1, 1, 1], selected = False,
               modifiers = []\<rparr>],
      data_materials = [\<lparr>mat_name = ''Material'', use_nodes = False, node_tree = None\<rparr>],
      active_object = Some 0,
      mode = ''OBJECT'',
      world = Some \<lparr>mat_name = ''World'', use_nodes = False, node_tree = None\<rparr>,
      camera = Some 2,
      render = \<lparr>resolution_x = 1920, resolution_y = 1080, film_transparent = False,
                filepath = ''/tmp/''\<rparr>,
      files = [],
      stdout = []\<rparr>"


section \<open>What the script is expected to leave behind\<close>

text \<open>The value and the state of a call that returns; \<open>None\<close> for a call that raises.\<close>

definition returns :: "'a py \<Rightarrow> bpy \<Rightarrow> ('a \<times> bpy) option" where
  "returns m s = (case m s of (Ok x, t) \<Rightarrow> Some (x, t) | (Raise e, t) \<Rightarrow> None)"

definition ops_ok :: "host \<Rightarrow> string list \<Rightarrow> bool" where
  "ops_ok h opnames = list_all (op_ok h) opnames"

definition sockets_of :: "host \<Rightarrow> string \<Rightarrow> string list \<times> string list" where
  "sockets_of h ty = (case node_sockets h ty of None \<Rightarrow> ([], []) | Some socks \<Rightarrow> socks)"

definition has_sockets :: "host \<Rightarrow> string \<Rightarrow> string list \<Rightarrow> string list \<Rightarrow> bool" where
  "has_sockets h ty ins outs \<longleftrightarrow>
     node_sockets h ty \<noteq> None \<and>
     list_all (\<lambda>k. k \<in> set (fst (sockets_of h ty))) ins \<and>
     list_all (\<lambda>k. k \<in> set (snd (sockets_of h ty))) outs"

text \<open>The material \<open>create_material\<close> builds, and what it needs of the host.\<close>

definition material_host_ok :: "host \<Rightarrow> bool" where
  "material_host_ok h \<longleftrightarrow>
     has_sockets h ''ShaderNodeBsdfPrincipled''
       [''Base Color'', ''Metallic'', ''Roughness'', ''Emission Strength''] [''BSDF''] \<and>
     has_sockets h ''ShaderNodeOutputMaterial'' [''Surface''] []"

definition principled_node :: "host \<Rightarrow> vec \<Rightarrow> real \<Rightarrow> real \<Rightarrow> real \<Rightarrow> node" where
  "principled_node h col me ro em =
     new_node ''ShaderNodeBsdfPrincipled'' (sockets_of h ''ShaderNodeBsdfPrincipled'')
       \<lparr>inputs :=
          set_key ''Emission Strength'' (Some (Num em))
         (set_key ''Roughness'' (Some (Num ro))
         (set_key ''Metallic'' (Some (Num me))
         (set_key ''Base Color'' (Some (Tuple col))
           (inputs (new_node ''ShaderNodeBsdfPrincipled''
              (sockets_of h ''ShaderNodeBsdfPrincipled''))))))\<rparr>"

definition new_material :: "host \<Rightarrow> string \<Rightarrow> vec \<Rightarrow> real \<Rightarrow> real \<Rightarrow> real \<Rightarrow> material" where
  "new_material h nm col me ro em =
     \<lparr>mat_name = nm, use_nodes = True,
      node_tree = Some
        \<lparr>nodes = [principled_node h col me ro em,
                  new_node ''ShaderNodeOutputMaterial''
                    (sockets_of h ''ShaderNodeOutputMaterial'')],
         links = [\<lparr>from_node = 0, from_socket = ''BSDF'', to_node = 1,
                   to_socket = ''Surface''\<rparr>]\<rparr>\<rparr>"

text \<open>The world and the two lights \<open>setup_lighting\<close> leaves.\<close>

definition lighting_host_ok :: "host \<Rightarrow> bool" where
  "lighting_host_ok h \<longleftrightarrow>
     has_sockets h ''ShaderNodeTexEnvironment'' [] [] \<and>
     has_sockets h ''ShaderNodeBackground'' [''Color'', ''Strength''] [''Background''] \<and>
     has_sockets h ''ShaderNodeOutputWorld'' [''Surface''] [] \<and>
     op_ok h ''object.light_add''"

definition background_node :: "host \<Rightarrow> node" where
  "background_node h =
     new_node ''ShaderNodeBackground'' (sockets_of h ''ShaderNodeBackground'')
       \<lparr>inputs :=
          set_key ''Strength'' (Some (Num 0.3))
         (set_key ''Color'' (Some (Tuple [0.1, 0.08, 0.12, 1.0]))
           (inputs (new_node ''ShaderNodeBackground''
              (sockets_of h ''ShaderNodeBackground''))))\<rparr>"

definition lit_world :: "host \<Rightarrow> material \<Rightarrow> material" where
  "lit_world h w =
     w\<lparr>use_nodes := True,
       node_tree := Some
        \<lparr>nodes = [new_node ''ShaderNodeTexEnvironment''
                    (sockets_of h ''ShaderNodeTexEnvironment''),
                  background_node h,
                  new_node ''ShaderNodeOutputWorld'' (sockets_of h ''ShaderNodeOutputWorld'')],
         links = [\<lparr>from_node = 1, from_socket = ''Background'', to_node = 2,
                   to_socket = ''Surface''\<rparr>]\<rparr>\<rparr>"

definition key_light :: "host \<Rightarrow> object" where
  "key_light h =
     \<lparr>name = object_name h (new_light ''SUN''),
      data = Light \<lparr>light_type = ''SUN'', energy = Some 3, color = Some [1.0, 0.95, 0.9]\<rparr>,
      location = [5, 5, 10], rotation_euler = [0, 0, 0], scale = [1, 1, 1],
      selected = False, modifiers = []\<rparr>"

definition fill_light :: "host \<Rightarrow> object" where
  "fill_light h =
     \<lparr>name = object_name h (new_light ''AREA''),
      data = Light \<lparr>light_type = ''AREA'', energy = Some 1,
                   color = Some [0.894, 0.702, 0.388]\<rparr>,
      location = [-3, 2, 5], rotation_euler = [0, 0, 0], scale = [1, 1, 1],
      selected = True, modifiers = []\<rparr>"

definition lit :: "bpy \<Rightarrow> bpy" where
  "lit s =
     s\<lparr>world := map_option (lit_world (host s)) (world s),
       objects := deselect_all (objects s) @
                  [Some (key_light (host s)), Some (fill_light (host s))],
       active_object := Some (Suc (length (objects s)))\<rparr>"

text \<open>The camera \<open>setup_icon_camera\<close> leaves.\<close>

definition icon_camera :: object where
  "icon_camera =
     \<lparr>name = ''Icon_Camera'', data = Camera, location = [4, -4, 3],
      rotation_euler = [1.1, 0, 0.785], scale = [1, 1, 1], selected = True,
      modifiers = []\<rparr>"




text \<open>The settings, the file and the message \<open>render_icon\<close> leaves.\<close>

definition icon_path :: "string \<Rightarrow> int \<Rightarrow> string" where
  "icon_path nm sz = icons_dir @ nm @ ''_'' @ str sz @ ''.png''"

definition rendered :: "string \<Rightarrow> int \<Rightarrow> bpy \<Rightarrow> bpy" where
  "rendered nm sz s =
     s\<lparr>render := \<lparr>resolution_x = sz, resolution_y = sz, film_transparent = True,
                  filepath = icon_path nm sz\<rparr>,
       files := files s @
         [\<lparr>img_path = icon_path nm sz, img_width = sz, img_height = sz,
           img_transparent = True, img_camera = camera s,
           img_objects = map name (live (objects s))\<rparr>],
       stdout := stdout s @
         [check_mark @ '' Rendered '' @ nm @ '' icon at '' @ str sz @ ''px'']\<rparr>"

text \<open>
  What an icon builder leaves: the materials it made appended to the old ones, no old
  object, its own meshes followed by the camera and the two lights, the world lit, and
  its message printed.  \<open>k\<close> is the reference of the builder's first material.
\<close>

definition mesh_object ::
    "string \<Rightarrow> shape \<Rightarrow> bool \<Rightarrow> shader_ref option list \<Rightarrow> vec \<Rightarrow> object" where
  "mesh_object nm sh sm mats loc =
     \<lparr>name = nm, data = Mesh \<lparr>shape = sh, materials = mats, smooth = sm\<rparr>,
      location = loc, rotation_euler = [0, 0, 0], scale = [1, 1, 1], selected = False,
      modifiers = []\<rparr>"

definition built :: "(host \<Rightarrow> material list) \<Rightarrow> (host \<Rightarrow> nat \<Rightarrow> object list) \<Rightarrow> string \<Rightarrow> bpy \<Rightarrow> bpy"
    where
  "built mats obs msg s =
     s\<lparr>data_materials := data_materials s @ mats (host s),
       objects := replicate (length (objects s)) None @
         map Some (obs (host s) (length (data_materials s)) @
           [icon_camera\<lparr>selected := False\<rparr>, key_light (host s), fill_light (host s)]),
       active_object :=
         Some (length (objects s) + length (obs (host s) (length (data_materials s))) + 2),
       camera := Some (length (objects s) + length (obs (host s) (length (data_materials s)))),
       world := map_option (lit_world (host s)) (world s),
       stdout := stdout s @ [msg]\<rparr>"

definition builder_host_ok :: "string list \<Rightarrow> bpy \<Rightarrow> bool" where
  "builder_host_ok opnames s \<longleftrightarrow>
     ops_ok (host s) ([''object.select_all'', ''object.delete''] @ opnames @
                      [''object.camera_add'']) \<and>
     material_host_ok (host s) \<and> lighting_host_ok (host s) \<and> world s \<noteq> None"

definition microphone_materials :: "host \<Rightarrow> material list" where
  "microphone_materials h =
     [new_material h ''Microphone_Body'' [0.533, 0.329, 0.816, 1.0] 0.3 0.2 0.0,
      new_material h ''Microphone_Grille'' [0.106, 0.110, 0.118, 1.0] 0.8 0.1 0.0,
      new_material h ''Microphone_Stand'' [0.106, 0.110, 0.118, 1.0] 0.5 0.3 0.0]"

definition microphone_objects :: "host \<Rightarrow> nat \<Rightarrow> object list" where
  "microphone_objects h k =
     [mesh_object ''Microphone_Capsule'' (Cylinder 0.4 1.2) True
        [Some (MaterialRef k)] [0, 0, 1],
      mesh_object ''Microphone_Grille'' (Cylinder 0.41 0.8) False
        [Some (MaterialRef (k + 1))] [0, 0, 1.2],
      mesh_object ''Microphone_Base'' (Cylinder 0.6 0.1) False
        [Some (MaterialRef (k + 2))] [0, 0, 0],
      mesh_object ''Microphone_Arm'' (Cylinder 0.05 1) False
        [Some (MaterialRef (k + 2))] [0, 0, 0.5]]"

definition bubble_materials :: "host \<Rightarrow> material list" where
  "bubble_materials h =
     [new_material h ''Bubble'' [0.533, 0.329, 0.816, 1.0] 0.1 0.1 0.1,
      new_material h ''Dots'' [0.98, 0.98, 0.98, 1.0] 0.1 0.3 0.3]"

definition bubble_objects :: "host \<Rightarrow> nat \<Rightarrow> object list" where
  "bubble_objects h k =
     [mesh_object ''Conversation_Bubble'' (Cube 2) True [Some (MaterialRef k)] [0, 0, 0.5]
        \<lparr>modifiers := [\<lparr>mod_name = ''Subdivision Surface'', mod_type = ''SUBSURF'',
                        levels = Some 2\<rparr>]\<rparr>,
      mesh_object ''Bubble_Tail'' (IcoSphere 0.3) False [Some (MaterialRef k)]
        [-0.8, -0.8, -0.2],
      mesh_object ''AI_Dot_1'' (IcoSphere 0.12) False [Some (MaterialRef (k + 1))]
        [-0.4, 0, 0.6],
      mesh_object ''AI_Dot_2'' (IcoSphere 0.12) False [Some (MaterialRef (k + 1))]
        [0, 0, 0.6],
      mesh_object ''AI_Dot_3'' (IcoSphere 0.12) False [Some (MaterialRef (k + 1))]
        [0.4, 0, 0.6]]"

definition book_materials :: "host \<Rightarrow> material list" where
  "book_materials h =
     [new_material h ''Book_Cover'' [0.533, 0.329, 0.816, 1.0] 0.1 0.4 0.0,
      new_material h ''Book_Pages'' [0.98, 0.98, 0.98, 1.0] 0.1 0.8 0.0,
      new_material h ''Bookmark'' [0.894, 0.702, 0.388, 1.0] 0.1 0.2 0.0]"

definition book_objects :: "host \<Rightarrow> nat \<Rightarrow> object list" where
  "book_objects h k =
     [mesh_object ''Book_Cover'' (Cube 2) False [Some (MaterialRef k)] [0, 0, 0]
        \<lparr>scale := [1.2, 0.1, 1.6]\<rparr>,
      mesh_object ''Book_Pages'' (Cube 2) False [Some (MaterialRef (k + 1))] [0, 0.05, 0]
        \<lparr>scale := [1.1, 0.08, 1.5]\<rparr>,
      mesh_object ''Bookmark'' (Cube 2) False [Some (MaterialRef (k + 2))] [0.5, 0, 0.8]
        \<lparr>scale := [0.1, 0.12, 0.8]\<rparr>]"

definition shield_materials :: "host \<Rightarrow> material list" where
  "shield_materials h =
     [new_material h ''Shield'' [0.894, 0.702, 0.388, 1.0] 0.2 0.3 0.05,
      new_material h ''Heart'' [0.533, 0.329, 0.816, 1.0] 0.1 0.3 0.1]"

definition shield_objects :: "host \<Rightarrow> nat \<Rightarrow> object list" where
  "shield_objects h k =
     [mesh_object ''Safety_Shield'' (Cylinder 1 0.2) True [Some (MaterialRef k)] [0, 0, 0],
      mesh_object ''Heart_Left'' (IcoSphere 0.3) False [Some (MaterialRef (k + 1))]
        [-0.15, 0.15, 0.2],
      mesh_object ''Heart_Right'' (IcoSphere 0.3) False [Some (MaterialRef (k + 1))]
        [0.15, 0.15, 0.2],
      mesh_object ''Heart_Point'' (Cone 0.2 0.4) False [Some (MaterialRef (k + 1))]
        [0, 0.1, -0.1]
        \<lparr>rotation_euler := [radians 180, 0, 0]\<rparr>]"







definition printed :: "string \<Rightarrow> bpy \<Rightarrow> bpy" where
  "printed line s = s\<lparr>stdout := stdout s @ [line]\<rparr>"

definition microphone_built :: "bpy \<Rightarrow> bpy" where
  "microphone_built =
     built microphone_materials microphone_objects (check_mark @ '' Microphone icon created!'')"

definition bubble_built :: "bpy \<Rightarrow> bpy" where
  "bubble_built =
     built bubble_materials bubble_objects
       (check_mark @ '' Conversation bubble icon created!'')"

definition book_built :: "bpy \<Rightarrow> bpy" where
  "book_built = built book_materials book_objects (check_mark @ '' Book icon created!'')"

definition shield_built :: "bpy \<Rightarrow> bpy" where
  "shield_built s =
     built shield_materials shield_objects (check_mark @ '' Shield icon created!'') s
       \<lparr>mode := ''OBJECT''\<rparr>"













text \<open>The outcome of a call that raised, at the type of its caller.\<close>

definition reraise :: "'a outcome \<times> bpy \<Rightarrow> 'b outcome \<times> bpy" where
  "reraise r =
     (case r of
        (Raise e, t) \<Rightarrow> (Raise e, t)
      | (Ok x, t) \<Rightarrow> (Raise (Exn RuntimeError [] t), t))"




section \<open>Running the model forward\<close>

lemma Ok_iff_returns: "m s = (Ok x, t) \<longleftrightarrow> returns m s = Some (x, t)"
  by (auto simp: returns_def split: prod.splits outcome.splits)

lemma returns_seq:
  "returns (seq m f) s = Option.bind (returns m s) (\<lambda>(x, u). returns (f x) u)"
  by (auto simp: returns_def seq_def split: prod.splits outcome.splits)

lemma bind_weak_cong: "x = y \<Longrightarrow> Option.bind x f = Option.bind y f"
  by simp

lemma bind_if: "Option.bind (if g then X else Y) F = (if g then Option.bind X F else Option.bind Y F)"
  by simp

lemma case_option_if:
  "case_option a f (if g then X else Y) = (if g then case_option a f X else case_option a f Y)"
  by simp

lemma case_sum_if:
  "case_sum f1 f2 (if g then X else Y) = (if g then case_sum f1 f2 X else case_sum f1 f2 Y)"
  by simp

lemma if_eq_Some: "((if g then X else Y) = Some z) = ((g \<longrightarrow> X = Some z) \<and> (\<not> g \<longrightarrow> Y = Some z))"
  by simp

lemma if_eq_None: "((if g then X else Y) = None) = ((g \<longrightarrow> X = None) \<and> (\<not> g \<longrightarrow> Y = None))"
  by simp

lemma returns_return: "returns (return x) s = Some (x, s)"
  by (simp add: returns_def return_def)

lemma returns_raise: "returns (raise k what) s = None"
  by (simp add: returns_def raise_def)

lemma returns_assign: "returns (assign f) s = Some ((), f s)"
  by (simp add: returns_def assign_def)

lemma returns_print: "returns (print line) s = Some ((), s\<lparr>stdout := stdout s @ [line]\<rparr>)"
  by (simp add: print_def returns_assign)

lemma returns_bpy_ops:
  "returns (bpy_ops opname effect) s =
     (if op_ok (host s) opname then Some ((), effect s) else None)"
  by (simp add: returns_def bpy_ops_def raise_def)

lemma returns_getitem: "returns (getitem d k) s = map_option (\<lambda>v. (v, s)) (map_of d k)"
  by (simp add: returns_def getitem_def raise_def split: option.splits)

lemma returns_update_object:
  "returns (update_object (Some i) attr f) s =
     (if i < length (objects s) then
        (case objects s ! i of
           None \<Rightarrow> None
         | Some ob \<Rightarrow>
             (case f ob of
                Inl k \<Rightarrow> None
              | Inr ob' \<Rightarrow> Some ((), s\<lparr>objects := (objects s)[i := Some ob']\<rparr>)))
      else None)"
  by (simp add: returns_def update_object_def raise_def split: option.splits sum.splits)

lemma returns_update_object_None: "returns (update_object None attr f) s = None"
  by (simp add: returns_def update_object_def raise_def)

lemma returns_context_active_object:
  "returns context_active_object s = Some (active_object s, s)"
  by (simp add: returns_def context_active_object_def)

lemma returns_update_shader:
  "returns (update_shader (Some r) attr f) s =
     (case shader_at s r of
        None \<Rightarrow> None
      | Some m \<Rightarrow>
          (case f m of
             Inl k \<Rightarrow> None
           | Inr (x, m') \<Rightarrow> Some (x, put_shader r m' s)))"
  by (simp add: returns_def update_shader_def raise_def
      split: option.splits sum.splits prod.splits)

lemma returns_update_shader_None: "returns (update_shader None attr f) s = None"
  by (simp add: returns_def update_shader_def raise_def)

lemma returns_update_tree:
  "returns (update_tree (Some r) attr f) s =
     (case shader_at s r of
        None \<Rightarrow> None
      | Some m \<Rightarrow>
          (case node_tree m of
             None \<Rightarrow> None
           | Some t \<Rightarrow>
               (case f t of
                  Inl k \<Rightarrow> None
                | Inr (x, t') \<Rightarrow> Some (x, put_shader r (m\<lparr>node_tree := Some t'\<rparr>) s))))"
  by (simp add: update_tree_def returns_update_shader
      split: option.splits sum.splits prod.splits)

lemma returns_update_tree_None: "returns (update_tree None attr f) s = None"
  by (simp add: update_tree_def returns_update_shader_None)

lemma returns_set_use_nodes:
  "returns (set_use_nodes (Some r) b) s =
     (case shader_at s r of
        None \<Rightarrow> None
      | Some m \<Rightarrow>
          Some ((), put_shader r
            (m\<lparr>use_nodes := b,
               node_tree := (if b then Some (case node_tree m of
                                               None \<Rightarrow> new_tree (host s) | Some t \<Rightarrow> t)
                             else node_tree m)\<rparr>) s))"
  by (simp add: returns_def set_use_nodes_def update_shader_def raise_def
      split: option.splits)

lemma returns_set_use_nodes_None: "returns (set_use_nodes None b) s = None"
  by (simp add: returns_def set_use_nodes_def update_shader_def raise_def)

lemma returns_node_tree_nodes_new:
  "returns (node_tree_nodes_new (Some r) ty) s =
     (case shader_at s r of
        None \<Rightarrow> None
      | Some m \<Rightarrow>
          (case node_tree m of
             None \<Rightarrow> None
           | Some t \<Rightarrow>
               (if node_sockets (host s) ty = None then None
                else Some ((Some r, length (nodes t)),
                       put_shader r
                         (m\<lparr>node_tree := Some
                              (t\<lparr>nodes := nodes t @ [new_node ty (sockets_of (host s) ty)]\<rparr>)\<rparr>)
                         s))))"
  by (simp add: returns_def node_tree_nodes_new_def update_tree_def update_shader_def
      raise_def sockets_of_def split: option.splits)

lemma returns_data_materials_new:
  "returns (data_materials_new n) s =
     Some (Some (MaterialRef (length (data_materials s))),
           s\<lparr>data_materials := data_materials s @
                [\<lparr>mat_name = n, use_nodes = False, node_tree = None\<rparr>]\<rparr>)"
  by (simp add: returns_def data_materials_new_def)

lemma returns_context_scene_world:
  "returns context_scene_world s = Some (if world s = None then None else Some WorldRef, s)"
  by (simp add: returns_def context_scene_world_def)

lemma returns_data_objects_contains:
  "returns (data_objects_contains n) s = Some (index_of_name n (objects s) \<noteq> None, s)"
  by (simp add: returns_def data_objects_contains_def)

lemma returns_data_objects_getitem:
  "returns (data_objects_getitem n) s =
     map_option (\<lambda>i. (Some i, s)) (index_of_name n (objects s))"
  by (simp add: returns_def data_objects_getitem_def raise_def split: option.splits)

lemma returns_data_objects_remove:
  "returns (data_objects_remove r) s =
     map_option (\<lambda>i. ((), forget_removed (s\<lparr>objects := (objects s)[i := None]\<rparr>)))
       (still_there (objects s) r)"
  by (simp add: returns_def data_objects_remove_def raise_def split: option.splits)

lemma returns_ops_object_modifier_add:
  "returns (ops_object_modifier_add ty) s =
     (case still_there (objects s) (active_object s) of
        None \<Rightarrow> None
      | Some i \<Rightarrow>
          (if op_ok (host s) ''object.modifier_add''
           then Some ((), s\<lparr>objects := (objects s)
                 [i := map_option
                    (\<lambda>ob. ob\<lparr>modifiers := modifiers ob @
                       [\<lparr>mod_name = modifier_name (host s) ty, mod_type = ty,
                         levels = None\<rparr>]\<rparr>)
                    (objects s ! i)]\<rparr>)
           else None))"
  by (simp add: returns_def ops_object_modifier_add_def bpy_ops_def raise_def
      split: option.splits)

lemma returns_ops_render_render:
  "returns (ops_render_render write_still) s =
     (if (write_still \<longrightarrow> can_write (host s) (filepath (render s))) \<and>
         op_ok (host s) ''render.render''
      then Some ((), if write_still then s\<lparr>files := files s @ [rendered_image s]\<rparr> else s)
      else None)"
  by (simp add: returns_def ops_render_render_def bpy_ops_def raise_def)

lemmas returns_simps =
  returns_seq returns_return returns_raise returns_assign returns_print returns_bpy_ops
  returns_getitem returns_update_object returns_update_object_None
  returns_context_active_object returns_update_shader returns_update_shader_None
  returns_update_tree returns_update_tree_None returns_set_use_nodes
  returns_set_use_nodes_None returns_node_tree_nodes_new returns_data_materials_new
  returns_context_scene_world returns_data_objects_contains returns_data_objects_getitem
  returns_data_objects_remove returns_ops_object_modifier_add returns_ops_render_render

lemmas host_call_defs =
  ops_object_select_all_def ops_object_delete_def ops_mesh_primitive_cylinder_add_def
  ops_mesh_primitive_cube_add_def ops_mesh_primitive_ico_sphere_add_def
  ops_mesh_primitive_cone_add_def ops_object_light_add_def ops_object_camera_add_def
  ops_object_shade_smooth_def ops_object_mode_set_def ops_mesh_select_all_def
  ops_mesh_select_mode_def set_name_def set_location_def set_scale_def
  set_rotation_euler_def set_rotation_euler_item_def data_materials_append_def
  set_data_energy_def set_data_color_def set_modifier_levels_def
  set_view_layer_objects_active_def set_scene_camera_def node_tree_nodes_clear_def
  node_inputs_def node_outputs_def set_default_value_def node_tree_links_new_def
  set_render_resolution_x_def set_render_resolution_y_def set_render_film_transparent_def
  set_render_filepath_def

lemmas run = returns_simps host_call_defs

subsection \<open>Facts about the data\<close>

lemma map_fst_set_key [simp]: "map fst (set_key k v kvs) = map fst kvs"
  by (induction kvs) auto

lemma map_of_set_key_member:
  "(k, w) \<in> set kvs \<Longrightarrow> map_of (set_key k v kvs) k = Some v"
  by (induction kvs) auto

lemma map_of_set_key_same:
  "k \<in> set (map fst kvs) \<Longrightarrow> map_of (set_key k v kvs) k = Some v"
  by (auto dest: map_of_set_key_member)

lemma map_of_set_key_other: "k \<noteq> k' \<Longrightarrow> map_of (set_key k' v kvs) k = map_of kvs k"
  by (induction kvs) auto

lemma live_append [simp]: "live (xs @ ys) = live xs @ live ys"
  by (induction xs rule: live.induct) auto

lemma live_map_Some [simp]: "live (map Some xs) = xs"
  by (induction xs) auto

lemma live_replicate_None [simp]: "live (replicate n None) = []"
  by (induction n) auto

lemma deselect_all_append [simp]: "deselect_all (xs @ ys) = deselect_all xs @ deselect_all ys"
  by (simp add: deselect_all_def)

lemma deselect_all_replicate_None [simp]:
  "deselect_all (replicate n None) = replicate n None"
  by (simp add: deselect_all_def)

lemma deselect_all_Nil [simp]: "deselect_all [] = []"
  by (simp add: deselect_all_def)

lemma deselect_all_Cons [simp]:
  "deselect_all (x # xs) = map_option (\<lambda>ob. ob\<lparr>selected := False\<rparr>) x # deselect_all xs"
  by (simp add: deselect_all_def)

lemma deselect_all_idem [simp]: "deselect_all (deselect_all xs) = deselect_all xs"
  by (simp add: deselect_all_def option.map_comp comp_def)

lemma length_deselect_all [simp]: "length (deselect_all xs) = length xs"
  by (simp add: deselect_all_def)

lemma index_of_name_replicate_None [simp]: "index_of_name n (replicate k None) = None"
  by (induction k) auto

lemma index_of_name_replicate_None_append [simp]:
  "index_of_name n (replicate k None @ ys) = map_option (\<lambda>i. k + i) (index_of_name n ys)"
  by (induction k) (simp_all add: option.map_comp comp_def option.map_ident)


lemma still_there_replicate_None [simp]: "still_there (replicate n None) r = None"
  by (auto simp: still_there_def split: option.splits)


lemma COLORS_soft_plum: "map_of COLORS ''soft_plum'' = Some [0.533, 0.329, 0.816, 1.0]"
  by (simp add: COLORS_def)

lemma COLORS_warm_ochre: "map_of COLORS ''warm_ochre'' = Some [0.894, 0.702, 0.388, 1.0]"
  by (simp add: COLORS_def)

lemma COLORS_ink_black: "map_of COLORS ''ink_black'' = Some [0.106, 0.110, 0.118, 1.0]"
  by (simp add: COLORS_def)

lemma COLORS_soft_white: "map_of COLORS ''soft_white'' = Some [0.98, 0.98, 0.98, 1.0]"
  by (simp add: COLORS_def)

lemmas COLORS_simps = COLORS_soft_plum COLORS_warm_ochre COLORS_ink_black COLORS_soft_white

subsection \<open>The helpers\<close>




lemma map_fst_new_inputs [simp]: "map fst (map (\<lambda>k. (k, None)) ks) = ks"
  by (induction ks) auto



lemma returns_setup_lighting:
  "returns setup_lighting s =
     (if world s \<noteq> None \<and> lighting_host_ok (host s) then Some ((), lit s) else None)"
proof (cases "world s")
  case None
  then show ?thesis
    by (simp add: setup_lighting_def run cong: bind_weak_cong)
next
  case (Some w)
  show ?thesis
  proof (cases "lighting_host_ok (host s)")
    case True
    with Some show ?thesis
      by (auto simp add: setup_lighting_def run shader_at_def put_shader_def Let_def
          nth_append lighting_host_ok_def has_sockets_def new_node_def lit_def lit_world_def
          background_node_def add_object_def key_light_def fill_light_def COLORS_simps
          list_update_append new_light_def
          cong: bind_weak_cong)
  next
    case False
    with Some have "returns setup_lighting s = None"
      by (simp add: setup_lighting_def run shader_at_def put_shader_def Let_def nth_append
          lighting_host_ok_def has_sockets_def new_node_def add_object_def COLORS_simps
          list_update_append new_light_def
          bind_if case_option_if case_sum_if if_eq_None
          cong: bind_weak_cong) blast
    with False show ?thesis
      by simp
  qed
qed


subsection \<open>The icon builders\<close>









subsection \<open>The orchestrator\<close>

lemma builder_host_ok_cong:
  "host t = host s \<Longrightarrow> (world t = None \<longleftrightarrow> world s = None) \<Longrightarrow>
   builder_host_ok opnames t = builder_host_ok opnames s"
  by (simp add: builder_host_ok_def)

lemma host_built [simp]: "host (built mats obs msg s) = host s"
  by (simp add: built_def)

lemma world_built_None [simp]: "world (built mats obs msg s) = None \<longleftrightarrow> world s = None"
  by (simp add: built_def)

lemma host_rendered [simp]: "host (rendered nm sz s) = host s"
  by (simp add: rendered_def)

lemma world_rendered [simp]: "world (rendered nm sz s) = world s"
  by (simp add: rendered_def)

lemma host_printed [simp]: "host (printed line s) = host s"
  by (simp add: printed_def)

lemma world_printed [simp]: "world (printed line s) = world s"
  by (simp add: printed_def)

lemma builder_host_ok_steps [simp]:
  "builder_host_ok opnames (built mats obs msg s) = builder_host_ok opnames s"
  "builder_host_ok opnames (rendered nm sz s) = builder_host_ok opnames s"
  "builder_host_ok opnames (printed line s) = builder_host_ok opnames s"
  "builder_host_ok opnames (s\<lparr>mode := m\<rparr>) = builder_host_ok opnames s"
  by (simp_all add: builder_host_ok_def)


lemma host_builts [simp]:
  "host (microphone_built s) = host s" "host (bubble_built s) = host s"
  "host (book_built s) = host s" "host (shield_built s) = host s"
  by (simp_all add: microphone_built_def bubble_built_def book_built_def shield_built_def)

lemma builder_host_ok_builts [simp]:
  "builder_host_ok opnames (microphone_built s) = builder_host_ok opnames s"
  "builder_host_ok opnames (bubble_built s) = builder_host_ok opnames s"
  "builder_host_ok opnames (book_built s) = builder_host_ok opnames s"
  "builder_host_ok opnames (shield_built s) = builder_host_ok opnames s"
  by (simp_all add: microphone_built_def bubble_built_def book_built_def shield_built_def)






section \<open>The claims\<close>

subsection \<open>The render step\<close>




text \<open>
  C10.  Whatever the name, the size and the outcome, \<open>render_icon\<close> leaves every object,
  every material, the world, the active object, the mode and the active camera as they
  were: the state after the call differs from the state before it in the render
  settings, the written files and the printed lines only.
\<close>

theorem render_icon_frame:
  "snd (render_icon nm size_arg s) =
     s\<lparr>render := render (snd (render_icon nm size_arg s)),
       files := files (snd (render_icon nm size_arg s)),
       stdout := stdout (snd (render_icon nm size_arg s))\<rparr> \<and>
   objects (snd (render_icon nm size_arg s)) = objects s \<and>
   data_materials (snd (render_icon nm size_arg s)) = data_materials s \<and>
   world (snd (render_icon nm size_arg s)) = world s \<and>
   camera (snd (render_icon nm size_arg s)) = camera s \<and>
   active_object (snd (render_icon nm size_arg s)) = active_object s"
  by (simp add: render_icon_def Let_def seq_def assign_def print_def bpy_ops_def raise_def
      ops_render_render_def set_render_resolution_x_def set_render_resolution_y_def
      set_render_film_transparent_def set_render_filepath_def)


subsection \<open>The helpers\<close>


lemma demo_host_lighting_ok: "lighting_host_ok demo_host"
  by (simp add: lighting_host_ok_def has_sockets_def sockets_of_def demo_host_def)


lemma startup_scene_host [simp]: "host startup_scene = demo_host"
  by (simp add: startup_scene_def)

lemma startup_scene_world [simp]: "world startup_scene \<noteq> None"
  by (simp add: startup_scene_def)



text \<open>
  C5.  A call of \<open>setup_lighting\<close> that returns has left the world with nodes enabled and
  a background node of colour (0.1, 0.08, 0.12, 1.0) and strength 0.3 whose Background
  output is linked to the Surface input of the world output, and has added exactly two
  objects to the scene: a SUN light at (5, 5, 10) with energy 3 and an AREA light at
  (-3, 2, 5) with energy 1 and the first three components of the warm-ochre colour.
\<close>

theorem setup_lighting_result:
  assumes "setup_lighting s = (Ok (), t)"
  shows "\<exists>w env_node background output key fill.
           world t = Some w \<and> use_nodes w \<and>
           node_tree w = Some
             \<lparr>nodes = [env_node, background, output],
              links = [\<lparr>from_node = 1, from_socket = ''Background'', to_node = 2,
                        to_socket = ''Surface''\<rparr>]\<rparr> \<and>
           node_type env_node = ''ShaderNodeTexEnvironment'' \<and>
           node_type background = ''ShaderNodeBackground'' \<and>
           map_of (inputs background) ''Color'' =
             Some (Some (Tuple [0.1, 0.08, 0.12, 1.0])) \<and>
           map_of (inputs background) ''Strength'' = Some (Some (Num 0.3)) \<and>
           ''Background'' \<in> set (outputs background) \<and>
           node_type output = ''ShaderNodeOutputWorld'' \<and>
           ''Surface'' \<in> set (map fst (inputs output)) \<and>
           objects t = deselect_all (objects s) @ [Some key, Some fill] \<and>
           data key = Light \<lparr>light_type = ''SUN'', energy = Some 3,
                              color = Some [1.0, 0.95, 0.9]\<rparr> \<and>
           location key = [5, 5, 10] \<and>
           data fill = Light \<lparr>light_type = ''AREA'', energy = Some 1,
                               color = Some [0.894, 0.702, 0.388]\<rparr> \<and>
           location fill = [-3, 2, 5] \<and>
           map_of COLORS ''warm_ochre'' = Some [0.894, 0.702, 0.388, 1.0]"
proof -
  let ?h = "host s"
  from assms have "returns setup_lighting s = Some ((), t)"
    by (simp add: Ok_iff_returns)
  then have ok: "lighting_host_ok ?h" and t: "t = lit s" and "world s \<noteq> None"
    by (auto simp: returns_setup_lighting split: if_splits)
  then obtain w0 where w0: "world s = Some w0"
    by auto
  have keys: "''Color'' \<in> set (fst (sockets_of ?h ''ShaderNodeBackground''))"
    "''Strength'' \<in> set (fst (sockets_of ?h ''ShaderNodeBackground''))"
    "''Background'' \<in> set (snd (sockets_of ?h ''ShaderNodeBackground''))"
    "''Surface'' \<in> set (fst (sockets_of ?h ''ShaderNodeOutputWorld''))"
    using ok by (simp_all add: lighting_host_ok_def has_sockets_def)
  let ?env = "new_node ''ShaderNodeTexEnvironment'' (sockets_of ?h ''ShaderNodeTexEnvironment'')"
  let ?out = "new_node ''ShaderNodeOutputWorld'' (sockets_of ?h ''ShaderNodeOutputWorld'')"
  have "world t = Some (lit_world ?h w0)" "use_nodes (lit_world ?h w0)"
    "node_tree (lit_world ?h w0) = Some
       \<lparr>nodes = [?env, background_node ?h, ?out],
        links = [\<lparr>from_node = 1, from_socket = ''Background'', to_node = 2,
                  to_socket = ''Surface''\<rparr>]\<rparr>"
    by (simp_all add: t lit_def w0 lit_world_def)
  moreover have "node_type ?env = ''ShaderNodeTexEnvironment''"
    "node_type (background_node ?h) = ''ShaderNodeBackground''"
    "''Background'' \<in> set (outputs (background_node ?h))"
    "node_type ?out = ''ShaderNodeOutputWorld''"
    "''Surface'' \<in> set (map fst (inputs ?out))"
    using keys by (simp_all add: background_node_def new_node_def)
  moreover have "map_of (inputs (background_node ?h)) ''Color'' =
      Some (Some (Tuple [0.1, 0.08, 0.12, 1.0]))"
    "map_of (inputs (background_node ?h)) ''Strength'' = Some (Some (Num 0.3))"
    using keys
    by (simp_all add: background_node_def new_node_def map_of_set_key_other
        map_of_set_key_same)
  moreover have "objects t = deselect_all (objects s) @ [Some (key_light ?h), Some (fill_light ?h)]"
    by (simp add: t lit_def)
  moreover have "data (key_light ?h) = Light \<lparr>light_type = ''SUN'', energy = Some 3,
      color = Some [1.0, 0.95, 0.9]\<rparr>" "location (key_light ?h) = [5, 5, 10]"
    "data (fill_light ?h) = Light \<lparr>light_type = ''AREA'', energy = Some 1,
      color = Some [0.894, 0.702, 0.388]\<rparr>" "location (fill_light ?h) = [-3, 2, 5]"
    by (simp_all add: key_light_def fill_light_def)
  ultimately show ?thesis
    using COLORS_warm_ochre by blast
qed

theorem setup_lighting_result_witness:
  "setup_lighting startup_scene = (Ok (), lit startup_scene) \<and>
   (\<exists>w. world (lit startup_scene) = Some w \<and> use_nodes w) \<and>
   map (map_option (\<lambda>ob. (name ob, data ob, location ob))) (objects (lit startup_scene)) =
     [Some (''Cube'', new_mesh (Cube 2), [0, 0, 0]),
      Some (''Light'', new_light ''POINT'', [4, 1, 6]),
      Some (''Camera'', Camera, [7, -7, 5]),
      Some (''Sun'', Light \<lparr>light_type = ''SUN'', energy = Some 3,
                            color = Some [1.0, 0.95, 0.9]\<rparr>, [5, 5, 10]),
      Some (''Area'', Light \<lparr>light_type = ''AREA'', energy = Some 1,
                             color = Some [0.894, 0.702, 0.388]\<rparr>, [-3, 2, 5])]"
proof -
  have run: "setup_lighting startup_scene = (Ok (), lit startup_scene)"
    by (simp add: Ok_iff_returns returns_setup_lighting demo_host_lighting_ok
        startup_scene_def)
  from setup_lighting_result [OF run]
  have w: "\<exists>w. world (lit startup_scene) = Some w \<and> use_nodes w"
    by blast
  have "map (map_option (\<lambda>ob. (name ob, data ob, location ob))) (objects (lit startup_scene)) =
     [Some (''Cube'', new_mesh (Cube 2), [0, 0, 0]),
      Some (''Light'', new_light ''POINT'', [4, 1, 6]),
      Some (''Camera'', Camera, [7, -7, 5]),
      Some (''Sun'', Light \<lparr>light_type = ''SUN'', energy = Some 3,
                            color = Some [1.0, 0.95, 0.9]\<rparr>, [5, 5, 10]),
      Some (''Area'', Light \<lparr>light_type = ''AREA'', energy = Some 1,
                             color = Some [0.894, 0.702, 0.388]\<rparr>, [-3, 2, 5])]"
    by (simp add: lit_def key_light_def fill_light_def startup_scene_def demo_host_def
        new_light_def)
  with run w show ?thesis
    by blast
qed




subsection \<open>The icon builders\<close>

lemmas built_defs = microphone_built_def bubble_built_def book_built_def shield_built_def
















subsection \<open>The orchestrator\<close>


lemma stdout_steps [simp]:
  "stdout (printed line s) = stdout s @ [line]"
  "stdout (built mats obs msg s) = stdout s @ [msg]"
  "stdout (rendered nm sz s) =
     stdout s @ [check_mark @ '' Rendered '' @ nm @ '' icon at '' @ str sz @ ''px'']"
  "stdout (s\<lparr>mode := m\<rparr>) = stdout s"
  by (simp_all add: printed_def built_def rendered_def)

lemma files_steps [simp]:
  "files (printed line s) = files s"
  "files (built mats obs msg s) = files s"
  "files (rendered nm sz s) =
     files s @ [\<lparr>img_path = icon_path nm sz, img_width = sz, img_height = sz,
                 img_transparent = True, img_camera = camera s,
                 img_objects = map name (live (objects s))\<rparr>]"
  "files (s\<lparr>mode := m\<rparr>) = files s"
  by (simp_all add: printed_def built_def rendered_def)

lemma names_built:
  "map name (live (objects (built mats obs msg s))) =
     map name (obs (host s) (length (data_materials s))) @
     [''Icon_Camera'', object_name (host s) (new_light ''SUN''),
      object_name (host s) (new_light ''AREA'')]"
  by (simp add: built_def icon_camera_def key_light_def fill_light_def comp_def)

lemma names_steps [simp]:
  "map name (live (objects (microphone_built s))) =
     [''Microphone_Capsule'', ''Microphone_Grille'', ''Microphone_Base'', ''Microphone_Arm'',
      ''Icon_Camera'', object_name (host s) (new_light ''SUN''),
      object_name (host s) (new_light ''AREA'')]"
  "map name (live (objects (bubble_built s))) =
     [''Conversation_Bubble'', ''Bubble_Tail'', ''AI_Dot_1'', ''AI_Dot_2'', ''AI_Dot_3'',
      ''Icon_Camera'', object_name (host s) (new_light ''SUN''),
      object_name (host s) (new_light ''AREA'')]"
  "map name (live (objects (book_built s))) =
     [''Book_Cover'', ''Book_Pages'', ''Bookmark'',
      ''Icon_Camera'', object_name (host s) (new_light ''SUN''),
      object_name (host s) (new_light ''AREA'')]"
  "map name (live (objects (shield_built s))) =
     [''Safety_Shield'', ''Heart_Left'', ''Heart_Right'', ''Heart_Point'',
      ''Icon_Camera'', object_name (host s) (new_light ''SUN''),
      object_name (host s) (new_light ''AREA'')]"
  by (simp_all add: built_defs names_built microphone_objects_def bubble_objects_def
      book_objects_def shield_objects_def mesh_object_def)

lemma stdout_builts [simp]:
  "stdout (microphone_built s) = stdout s @ [check_mark @ '' Microphone icon created!'']"
  "stdout (bubble_built s) = stdout s @ [check_mark @ '' Conversation bubble icon created!'']"
  "stdout (book_built s) = stdout s @ [check_mark @ '' Book icon created!'']"
  "stdout (shield_built s) = stdout s @ [check_mark @ '' Shield icon created!'']"
  by (simp_all add: built_defs)

lemma files_builts [simp]:
  "files (microphone_built s) = files s" "files (bubble_built s) = files s"
  "files (book_built s) = files s" "files (shield_built s) = files s"
  by (simp_all add: built_defs)





subsection \<open>Exceptions\<close>







































lemma reraise_Raise [simp]: "reraise (Raise e, t) = (Raise e, t)"
  by (simp add: reraise_def)






subsection \<open>Removal of objects\<close>












lemma objects_put_shader [simp]: "objects (put_shader r m s) = objects s"
  by (simp add: put_shader_def split: shader_ref.splits)






















end
